theory Spec2Isabelle
  imports Main "HOL-Library.Sublist"
begin

section \<open>Python strings\<close>

text \<open>
  Strings are lists of characters. The ASCII fragment of \<^verbatim>\<open>str.lower\<close> and of
  \<^verbatim>\<open>str.strip\<close> is modelled; \<^verbatim>\<open>a in b\<close> on strings is \<^const>\<open>sublist\<close>,
  \<^verbatim>\<open>s.startswith(p)\<close> is \<^const>\<open>prefix\<close>.
\<close>

definition lower_char :: "char \<Rightarrow> char" where
  "lower_char c =
     (case map_of (zip ''ABCDEFGHIJKLMNOPQRSTUVWXYZ'' ''abcdefghijklmnopqrstuvwxyz'') c of
        None \<Rightarrow> c
      | Some d \<Rightarrow> d)"

definition lower :: "string \<Rightarrow> string" where
  "lower s = map lower_char s"

definition is_space :: "char \<Rightarrow> bool" where
  "is_space c = (c \<in> set [CHR 0x09, CHR 0x0A, CHR 0x0B, CHR 0x0C, CHR 0x0D,
                            CHR 0x1C, CHR 0x1D, CHR 0x1E, CHR 0x1F, CHR 0x20])"

definition strip :: "string \<Rightarrow> string" where
  "strip s = rev (dropWhile is_space (rev (dropWhile is_space s)))"

text \<open>\<^verbatim>\<open>s.split(c)\<close> for a one-character separator: never returns the empty list.\<close>

fun split_on :: "char \<Rightarrow> string \<Rightarrow> string list" where
  "split_on c [] = [[]]"
| "split_on c (x # xs) =
     (if x = c then [] # split_on c xs
      else (case split_on c xs of
              [] \<Rightarrow> [[x]]
            | w # ws \<Rightarrow> (x # w) # ws))"

section \<open>The A2A event bus (adk/a2a.py)\<close>

datatype error =
    ValueError string
  | FileNotFoundError string
  | OSError string

text \<open>
  A message is a dictionary whose fields, where present, are strings, as the handlers'
  docstrings give them. The argument of \<^verbatim>\<open>send\<close> is any Python object: a
  dictionary or something else.
\<close>

type_synonym message = "string \<rightharpoonup> string"

datatype pyarg = Dict message | NotDict

text \<open>
  One \<^verbatim>\<open>A2A\<close> object. Objects live in a store (a list, the reference is the
  index), because the class-level table \<^verbatim>\<open>_instances\<close> keeps only the latest
  object made for an agent id while older objects stay alive and stay listed in
  \<^verbatim>\<open>_global_handlers\<close>. The handler type is a parameter.
\<close>

record 'h a2a =
  a2a_agent_id :: string
  handlers :: "string \<rightharpoonup> 'h list"
  running :: bool

record 'h bus =
  objects :: "'h a2a list"
  instances :: "string \<rightharpoonup> nat"
  global_handlers :: "string \<rightharpoonup> (string \<times> 'h) list"

definition empty_bus :: "'h bus" where
  "empty_bus = \<lparr>objects = [], instances = Map.empty, global_handlers = Map.empty\<rparr>"

definition a2a_init :: "string \<Rightarrow> 'h bus \<Rightarrow> nat \<times> 'h bus" where
  "a2a_init agent b =
     (let self = length (objects b)
      in (self,
          b\<lparr>objects := objects b @ [\<lparr>a2a_agent_id = agent, handlers = Map.empty, running = False\<rparr>],
            instances := (instances b)(agent \<mapsto> self)\<rparr>))"

definition get_list :: "('k \<rightharpoonup> 'v list) \<Rightarrow> 'k \<Rightarrow> 'v list" where
  "get_list m k = (case m k of None \<Rightarrow> [] | Some vs \<Rightarrow> vs)"

definition global_key :: "string \<Rightarrow> string \<Rightarrow> string" where
  "global_key agent event_type = agent @ '':'' @ event_type"

text \<open>\<^verbatim>\<open>A2A.on\<close>; a reference outside the store cannot occur in Python and changes nothing.\<close>

definition on :: "nat \<Rightarrow> string \<Rightarrow> 'h \<Rightarrow> 'h bus \<Rightarrow> 'h bus" where
  "on self event_type handler b =
     (if self < length (objects b) then
        (let obj = objects b ! self;
             obj' = obj\<lparr>handlers := (handlers obj)(event_type \<mapsto>
                        get_list (handlers obj) event_type @ [handler])\<rparr>;
             key = global_key (a2a_agent_id obj) event_type
         in b\<lparr>objects := (objects b)[self := obj'],
              global_handlers := (global_handlers b)(key \<mapsto>
                 get_list (global_handlers b) key @ [(a2a_agent_id obj, handler)])\<rparr>)
      else b)"

definition start :: "nat \<Rightarrow> 'h bus \<Rightarrow> 'h bus" where
  "start self b =
     (if self < length (objects b)
      then b\<lparr>objects := (objects b)[self := (objects b ! self)\<lparr>running := True\<rparr>]\<rparr>
      else b)"

definition stop :: "nat \<Rightarrow> 'h bus \<Rightarrow> 'h bus" where
  "stop self b =
     (if self < length (objects b)
      then b\<lparr>objects := (objects b)[self := (objects b ! self)\<lparr>running := False\<rparr>]\<rparr>
      else b)"

text \<open>
  \<^verbatim>\<open>A2A.send\<close>, first as the list of handler calls it makes, in order, when every
  handler returns: the running target's own handlers, and then, whether or not the
  target runs, the entries of the global table under the key of the target and the type
  whose agent id is the target's.
\<close>

definition instance_calls :: "'h bus \<Rightarrow> string \<Rightarrow> string \<Rightarrow> 'h list" where
  "instance_calls b to_agent event_type =
     (case instances b to_agent of
        None \<Rightarrow> []
      | Some r \<Rightarrow>
          (if r < length (objects b) \<and> running (objects b ! r)
           then get_list (handlers (objects b ! r)) event_type
           else []))"

definition global_calls :: "'h bus \<Rightarrow> string \<Rightarrow> string \<Rightarrow> 'h list" where
  "global_calls b to_agent event_type =
     map snd (filter (\<lambda>(agent, handler). agent = to_agent)
                (get_list (global_handlers b) (global_key to_agent event_type)))"

definition send :: "'h bus \<Rightarrow> string \<Rightarrow> pyarg \<Rightarrow> error + 'h list" where
  "send b to_agent arg =
     (case arg of
        NotDict \<Rightarrow> Inl (ValueError ''Message must be a dictionary'')
      | Dict message \<Rightarrow>
          (case message ''type'' of
             None \<Rightarrow> Inl (ValueError ''Message must contain 'type' field'')
           | Some event_type \<Rightarrow>
               Inr (instance_calls b to_agent event_type @ global_calls b to_agent event_type)))"

text \<open>
  Running the calls on a state: a handler is a state transformer that may raise, and an
  exception ends the dispatch. The result is the state reached and the exception, if any.
\<close>

fun run_handlers :: "('h \<Rightarrow> message \<Rightarrow> 's \<Rightarrow> 's \<times> error option) \<Rightarrow> 'h list \<Rightarrow> message \<Rightarrow> 's
                       \<Rightarrow> 's \<times> error option" where
  "run_handlers exec [] m s = (s, None)"
| "run_handlers exec (h # hs) m s =
     (case exec h m s of
        (s', None) \<Rightarrow> run_handlers exec hs m s'
      | (s', Some e) \<Rightarrow> (s', Some e))"

definition send_run :: "('h \<Rightarrow> message \<Rightarrow> 's \<Rightarrow> 's \<times> error option) \<Rightarrow> 'h bus \<Rightarrow> string \<Rightarrow> pyarg \<Rightarrow> 's
                          \<Rightarrow> 's \<times> error option" where
  "send_run exec b to_agent arg s =
     (case arg of
        NotDict \<Rightarrow> (s, Some (ValueError ''Message must be a dictionary''))
      | Dict message \<Rightarrow>
          (case message ''type'' of
             None \<Rightarrow> (s, Some (ValueError ''Message must contain 'type' field''))
           | Some event_type \<Rightarrow>
               (case run_handlers exec (instance_calls b to_agent event_type) message s of
                  (s', None) \<Rightarrow> run_handlers exec (global_calls b to_agent event_type) message s'
                | (s', Some e) \<Rightarrow> (s', Some e))))"

text \<open>A handler that only records that it was called: its state is the call log.\<close>

definition log_call :: "'h \<Rightarrow> message \<Rightarrow> 'h list \<Rightarrow> 'h list \<times> error option" where
  "log_call h m calls = (calls @ [h], None)"

section \<open>File tools (adk/skills/file_tools.py)\<close>

text \<open>
  The file system the tools act on: the files with their contents, and the faults of the
  environment. A path in \<open>unreadable\<close>, \<open>unwritable\<close> or \<open>undeletable\<close> makes the
  operating-system call raise; \<open>short_write\<close> gives, for a path, how many characters of a
  write reach the file although the write reports success (absent: all of them);
  \<open>unmakeable\<close> holds the directories whose \<^verbatim>\<open>mkdir\<close> raises. A failure to create
  the parent directory in \<^verbatim>\<open>write_file\<close> is counted under \<open>unwritable\<close>.
\<close>

record filesystem =
  files :: "string \<rightharpoonup> string"
  unreadable :: "string set"
  unwritable :: "string set"
  short_write :: "string \<rightharpoonup> nat"
  undeletable :: "string set"
  unmakeable :: "string set"

definition path_exists :: "string \<Rightarrow> filesystem \<Rightarrow> bool" where
  "path_exists path f = (files f path \<noteq> None)"

definition read_file :: "string \<Rightarrow> filesystem \<Rightarrow> error + string" where
  "read_file path f =
     (case files f path of
        None \<Rightarrow> Inl (FileNotFoundError (''File not found: '' @ path))
      | Some content \<Rightarrow> if path \<in> unreadable f then Inl (OSError path) else Inr content)"

definition write_file :: "string \<Rightarrow> string \<Rightarrow> filesystem \<Rightarrow> error + filesystem" where
  "write_file path content f =
     (if path \<in> unwritable f then Inl (OSError path)
      else Inr (f\<lparr>files := (files f)(path \<mapsto>
                  (case short_write f path of None \<Rightarrow> content | Some n \<Rightarrow> take n content))\<rparr>))"

definition delete_file :: "string \<Rightarrow> filesystem \<Rightarrow> error + filesystem" where
  "delete_file path f =
     (case files f path of
        None \<Rightarrow> Inl (FileNotFoundError (''File not found: '' @ path))
      | Some content \<Rightarrow>
          if path \<in> undeletable f then Inl (OSError path)
          else Inr (f\<lparr>files := (files f)(path := None)\<rparr>))"

definition mkdir :: "string \<Rightarrow> filesystem \<Rightarrow> error + filesystem" where
  "mkdir dir f = (if dir \<in> unmakeable f then Inl (OSError dir) else Inr f)"

text \<open>
  \<^verbatim>\<open>Path(dir) / name\<close>: an absolute right operand replaces the left one, otherwise
  the two are joined by the separator. The normalisation pathlib does on top of that
  (repeated separators, \<^verbatim>\<open>.\<close> components) is not modelled.
\<close>

definition path_join :: "string \<Rightarrow> string \<Rightarrow> string" where
  "path_join dir name = (if prefix ''/'' name then name else dir @ ''/'' @ name)"

section \<open>Task ids (adk/skills/task_tools.py)\<close>

definition digit_char :: "nat \<Rightarrow> char" where
  "digit_char d = ''0123456789'' ! d"

fun decimal :: "nat \<Rightarrow> string" where
  "decimal n = (if n < 10 then [digit_char n] else decimal (n div 10) @ [digit_char (n mod 10)])"

declare decimal.simps [simp del]

text \<open>The format \<^verbatim>\<open>{n:03d}\<close>: decimal digits, padded with zeros to three places.\<close>

definition format_03d :: "nat \<Rightarrow> string" where
  "format_03d n = replicate (3 - length (decimal n)) (CHR ''0'') @ decimal n"

definition generate_task_id :: "nat \<Rightarrow> nat \<times> string" where
  "generate_task_id task_counter =
     (let task_counter' = task_counter + 1
      in (task_counter', ''TASK-'' @ format_03d task_counter'))"

section \<open>The Librarian (agents/librarian.py)\<close>

datatype status = Routing | Delegated | Completed

record task =
  task_id :: string
  payload :: string
  status :: status
  assigned_agent :: "string option"

record agent_info =
  agent_id :: string
  capabilities :: "string list"
  permissions :: "string list"

text \<open>
  The roster is a Python dictionary, which keeps its keys in the order of their first
  insertion: an association list with distinct keys. Assigning to a key that is there
  replaces the value in place.
\<close>

type_synonym roster = "(string \<times> agent_info) list"

fun dict_set :: "'k \<Rightarrow> 'v \<Rightarrow> ('k \<times> 'v) list \<Rightarrow> ('k \<times> 'v) list" where
  "dict_set k v [] = [(k, v)]"
| "dict_set k v ((k', v') # d) = (if k' = k then (k, v) # d else (k', v') # dict_set k v d)"

fun dict_modify :: "'k \<Rightarrow> ('v \<Rightarrow> 'v) \<Rightarrow> ('k \<times> 'v) list \<Rightarrow> ('k \<times> 'v) list" where
  "dict_modify k g [] = []"
| "dict_modify k g ((k', v') # d) = (if k' = k then (k', g v') # d else (k', v') # dict_modify k g d)"

datatype roster_section = Capabilities | Permissions

text \<open>
  One round of the loop of \<^verbatim>\<open>_load_roster\<close> over the lines. The loop state is the
  dictionary built so far, \<^verbatim>\<open>current_agent\<close> and \<^verbatim>\<open>current_section\<close>. An
  agent name is truthy when it is a non-empty string. A list item is appended to the
  entry of the current agent, which exists whenever the current agent is truthy.
\<close>

definition truthy :: "string option \<Rightarrow> bool" where
  "truthy v = (case v of None \<Rightarrow> False | Some s \<Rightarrow> s \<noteq> [])"

text \<open>\<^verbatim>\<open>not v\<close> for a value that is \<^verbatim>\<open>None\<close> or a string.\<close>

definition py_not :: "string option \<Rightarrow> bool" where
  "py_not v = (case v of None \<Rightarrow> True | Some s \<Rightarrow> s = [])"

definition append_item :: "roster_section \<Rightarrow> string \<Rightarrow> agent_info \<Rightarrow> agent_info" where
  "append_item sec item info =
     (case sec of
        Capabilities \<Rightarrow> info\<lparr>capabilities := capabilities info @ [item]\<rparr>
      | Permissions \<Rightarrow> info\<lparr>permissions := permissions info @ [item]\<rparr>)"

definition parse_line :: "roster \<times> string option \<times> roster_section option \<Rightarrow> string
                            \<Rightarrow> roster \<times> string option \<times> roster_section option" where
  "parse_line st line =
     (case st of (agents, current_agent, current_section) \<Rightarrow>
        (let stripped = strip line in
         if prefix ''##'' stripped \<and> \<not> prefix ''###'' stripped then
           (let name = strip (drop 2 stripped)
            in ((if name \<noteq> []
                 then dict_set name \<lparr>agent_id = name, capabilities = [], permissions = []\<rparr> agents
                 else agents),
                Some name, current_section))
         else if truthy current_agent \<and> sublist '':'' stripped \<and> \<not> prefix ''-'' stripped then
           (agents, current_agent,
            (if sublist ''capabilities'' (lower stripped) then Some Capabilities
             else if sublist ''permissions'' (lower stripped) then Some Permissions
             else current_section))
         else if truthy current_agent \<and> current_section \<noteq> None \<and> prefix ''-'' stripped then
           (let item = strip (drop 1 stripped)
            in (if item \<noteq> []
                then (dict_modify (the current_agent) (append_item (the current_section) item) agents,
                      current_agent, current_section)
                else (agents, current_agent, current_section)))
         else (agents, current_agent, current_section)))"

definition parse_roster :: "string \<Rightarrow> roster" where
  "parse_roster roster_content =
     fst (foldl parse_line ([], None, None) (split_on (CHR 0x0A) roster_content))"

definition load_roster :: "string \<Rightarrow> filesystem \<Rightarrow> error + roster" where
  "load_roster roster_path f =
     (if \<not> path_exists roster_path f then Inr []
      else (case read_file roster_path f of
              Inl e \<Rightarrow> Inl e
            | Inr roster_content \<Rightarrow> Inr (parse_roster roster_content)))"

text \<open>\<^verbatim>\<open>_route_task\<close>: the inner loop over the capabilities, the outer loop over the roster.\<close>

fun matches :: "string list \<Rightarrow> string \<Rightarrow> bool" where
  "matches [] payload_lower = False"
| "matches (capability # rest) payload_lower =
     (if sublist (lower (strip capability)) payload_lower then True
      else matches rest payload_lower)"

fun route_loop :: "roster \<Rightarrow> string \<Rightarrow> string" where
  "route_loop [] payload_lower = ''librarian''"
| "route_loop ((agent, info) # rest) payload_lower =
     (if agent = ''librarian'' then route_loop rest payload_lower
      else if matches (capabilities info) payload_lower then agent
      else route_loop rest payload_lower)"

definition route_task :: "roster \<Rightarrow> string \<Rightarrow> string" where
  "route_task r description = route_loop r (lower description)"

text \<open>
  The Librarian's state with the file system and the task counter it works on. The
  completion queue holds the pairs of agent id and task id.
\<close>

record world =
  logs_path :: string
  roster :: roster
  active_tasks :: "string \<rightharpoonup> task"
  completion_queue :: "(string \<times> string) list"
  fs :: filesystem
  task_counter :: nat

definition active_spec_path :: "world \<Rightarrow> string" where
  "active_spec_path w = path_join (logs_path w) ''active_spec.md''"

definition spec_path :: "world \<Rightarrow> string \<Rightarrow> string \<Rightarrow> string" where
  "spec_path w agent tid = path_join (logs_path w) (agent @ ''_'' @ tid @ ''_spec.md'')"

definition modify_task :: "string \<Rightarrow> (task \<Rightarrow> task) \<Rightarrow> world \<Rightarrow> world" where
  "modify_task tid g w =
     (case active_tasks w tid of
        None \<Rightarrow> w
      | Some t \<Rightarrow> w\<lparr>active_tasks := (active_tasks w)(tid \<mapsto> g t)\<rparr>)"

text \<open>
  \<^verbatim>\<open>_handle_new_task\<close>. Its last statement sends the DELEGATED_TASK message on the
  bus; the handler is modelled up to that statement and returns the target and the message
  of the send, which \<^const>\<open>send_run\<close> then dispatches.
\<close>

definition handle_new_task :: "message \<Rightarrow> world \<Rightarrow> world \<times> string \<times> message" where
  "handle_new_task message w =
     (let description = (case message ''payload'' of None \<Rightarrow> [] | Some p \<Rightarrow> p);
          (w0, tid) = (if truthy (message ''task_id'') then (w, the (message ''task_id''))
                       else (case generate_task_id (task_counter w) of
                               (c, t) \<Rightarrow> (w\<lparr>task_counter := c\<rparr>, t)));
          w1 = w0\<lparr>active_tasks := (active_tasks w0)(tid \<mapsto>
                  \<lparr>task_id = tid, payload = description, status = Routing, assigned_agent = None\<rparr>)\<rparr>;
          target_agent = route_task (roster w1) description;
          w2 = modify_task tid (\<lambda>t. t\<lparr>assigned_agent := Some target_agent\<rparr>) w1;
          w3 = modify_task tid (\<lambda>t. t\<lparr>status := Delegated\<rparr>) w2
      in (w3, target_agent,
          [''type'' \<mapsto> ''DELEGATED_TASK'', ''task_id'' \<mapsto> tid, ''payload'' \<mapsto> description]))"

definition cleanup_task :: "string \<Rightarrow> world \<Rightarrow> world" where
  "cleanup_task tid w =
     w\<lparr>active_tasks := (active_tasks w)(tid := None),
       completion_queue := filter (\<lambda>(agent, t). t \<noteq> tid) (completion_queue w)\<rparr>"

definition append_to_active_spec :: "string \<Rightarrow> string \<Rightarrow> string \<Rightarrow> world \<Rightarrow> error + world" where
  "append_to_active_spec content agent tid w =
     (case mkdir (logs_path w) (fs w) of
        Inl e \<Rightarrow> Inl e
      | Inr f1 \<Rightarrow>
          (case (if path_exists (active_spec_path w) f1 then read_file (active_spec_path w) f1
                 else Inr (''# Active Specification'' @ [CHR 0x0A, CHR 0x0A])) of
             Inl e \<Rightarrow> Inl e
           | Inr existing_content \<Rightarrow>
               (let separator = [CHR 0x0A, CHR 0x0A] @ ''---'' @ [CHR 0x0A] @ ''## Task: '' @ tid
                                  @ '' (by '' @ agent @ '')'' @ [CHR 0x0A, CHR 0x0A];
                    updated_content = existing_content @ separator @ content @ [CHR 0x0A]
                in (case write_file (active_spec_path w) updated_content f1 of
                      Inl e \<Rightarrow> Inl e
                    | Inr f2 \<Rightarrow> Inr (w\<lparr>fs := f2\<rparr>)))))"

definition verify_consolidation :: "string \<Rightarrow> world \<Rightarrow> error + bool" where
  "verify_consolidation content w =
     (if \<not> path_exists (active_spec_path w) (fs w) then Inr False
      else (case read_file (active_spec_path w) (fs w) of
              Inl e \<Rightarrow> Inl e
            | Inr active_spec_content \<Rightarrow> Inr (sublist (strip content) active_spec_content)))"

text \<open>\<^verbatim>\<open>try: delete_file(path) except Exception: pass\<close>\<close>

definition try_delete :: "string \<Rightarrow> world \<Rightarrow> world" where
  "try_delete path w = (case delete_file path (fs w) of Inl e \<Rightarrow> w | Inr f \<Rightarrow> w\<lparr>fs := f\<rparr>)"

text \<open>
  \<^verbatim>\<open>_collect_and_consolidate_spec\<close>. The result is the world reached and the exception
  that leaves the function, if any: only the read in \<^verbatim>\<open>_verify_consolidation\<close> is
  outside every \<^verbatim>\<open>try\<close>.
\<close>

definition collect_and_consolidate_spec :: "string \<Rightarrow> string \<Rightarrow> world \<Rightarrow> world \<times> error option" where
  "collect_and_consolidate_spec agent tid w =
     (let path = spec_path w agent tid in
      if \<not> path_exists path (fs w) then (cleanup_task tid w, None)
      else
        (case read_file path (fs w) of
           Inl e \<Rightarrow> (cleanup_task tid w, None)
         | Inr spec_content \<Rightarrow>
             if strip spec_content = [] then (cleanup_task tid (try_delete path w), None)
             else
               (case append_to_active_spec spec_content agent tid w of
                  Inl e \<Rightarrow> (w, None)
                | Inr w1 \<Rightarrow>
                    (case verify_consolidation spec_content w1 of
                       Inl e \<Rightarrow> (w1, Some e)
                     | Inr verification_success \<Rightarrow>
                         (cleanup_task tid
                            (if verification_success then try_delete path w1 else w1), None)))))"

definition handle_task_complete :: "message \<Rightarrow> world \<Rightarrow> world \<times> error option" where
  "handle_task_complete message w =
     (if py_not (message ''agent_id'') \<or> py_not (message ''task_id'') then (w, None)
      else
        (let agent = the (message ''agent_id'');
             tid = the (message ''task_id'')
         in if (case active_tasks w tid of None \<Rightarrow> False | Some t \<Rightarrow> status t = Completed)
            then (w, None)
            else
              (let w1 = modify_task tid (\<lambda>t. t\<lparr>status := Completed\<rparr>) w;
                   w2 = w1\<lparr>completion_queue := completion_queue w1 @ [(agent, tid)]\<rparr>
               in collect_and_consolidate_spec agent tid w2)))"

section \<open>Scenarios and specifications\<close>

text \<open>
  Concrete worlds of the spec's scenarios: the roster with one writer whose keyword is
  \<open>report\<close>, the task TASK-001, and file systems with the writer's temporary spec file
  and with one fault each.
\<close>

definition no_faults :: "(string \<rightharpoonup> string) \<Rightarrow> filesystem" where
  "no_faults fl = \<lparr>files = fl, unreadable = {}, unwritable = {}, short_write = Map.empty,
                    undeletable = {}, unmakeable = {}\<rparr>"

definition writer_task :: task where
  "writer_task = \<lparr>task_id = ''TASK-001'', payload = ''write the report'', status = Delegated,
                   assigned_agent = Some ''writer''\<rparr>"

definition writer_roster :: roster where
  "writer_roster = [(''writer'', \<lparr>agent_id = ''writer'', capabilities = [''report''], permissions = []\<rparr>)]"

definition scenario_world :: "filesystem \<Rightarrow> world" where
  "scenario_world f = \<lparr>logs_path = ''logs'', roster = writer_roster,
                        active_tasks = [''TASK-001'' \<mapsto> writer_task],
                        completion_queue = [(''writer'', ''TASK-001'')], fs = f, task_counter = 1\<rparr>"

definition artifact_files :: "string \<rightharpoonup> string" where
  "artifact_files = [''logs/writer_TASK-001_spec.md'' \<mapsto> ''Report body'']"

definition short_aggregate :: filesystem where
  "short_aggregate = (no_faults artifact_files)\<lparr>short_write := [''logs/active_spec.md'' \<mapsto> 0]\<rparr>"

definition unreadable_aggregate :: filesystem where
  "unreadable_aggregate = (no_faults artifact_files)\<lparr>unreadable := {''logs/active_spec.md''}\<rparr>"

definition unwritable_aggregate :: filesystem where
  "unwritable_aggregate = (no_faults artifact_files)\<lparr>unwritable := {''logs/active_spec.md''}\<rparr>"

definition task_complete_message :: message where
  "task_complete_message = [''type'' \<mapsto> ''TASK_COMPLETE'', ''agent_id'' \<mapsto> ''writer'',
                            ''task_id'' \<mapsto> ''TASK-001'']"

definition first_entry :: string where
  "first_entry = ''# Active Specification'' @ [CHR 0x0A, CHR 0x0A, CHR 0x0A, CHR 0x0A] @ ''---''
                 @ [CHR 0x0A] @ ''## Task: TASK-001 (by writer)'' @ [CHR 0x0A, CHR 0x0A]
                 @ ''Report body'' @ [CHR 0x0A]"

definition with_aggregate :: "string \<Rightarrow> filesystem \<Rightarrow> filesystem" where
  "with_aggregate text f = f\<lparr>files := (files f)(''logs/active_spec.md'' \<mapsto> text)\<rparr>"

text \<open>
  Routing as the spec words it: the first agent of the roster, the Librarian apart, one of
  whose capability keywords occurs in the payload, and the Librarian when there is none.
  What "occurs" means is the parameter.
\<close>

definition first_match :: "(string \<Rightarrow> bool) \<Rightarrow> roster \<Rightarrow> string" where
  "first_match occurs r =
     (case find (\<lambda>(agent, info). agent \<noteq> ''librarian'' \<and> list_ex occurs (capabilities info)) r of
        None \<Rightarrow> ''librarian''
      | Some (agent, info) \<Rightarrow> agent)"

text \<open>The invariant of the roster parser: keywords are non-empty and trimmed.\<close>

definition keywords_of :: "agent_info \<Rightarrow> string set" where
  "keywords_of info = set (capabilities info) \<union> set (permissions info)"

definition trimmed :: "agent_info \<Rightarrow> bool" where
  "trimmed info = (\<forall>kw \<in> keywords_of info. kw \<noteq> [] \<and> strip kw = kw)"

definition trimmed_keywords :: "roster \<Rightarrow> bool" where
  "trimmed_keywords r = list_all (\<lambda>(agent, info). trimmed info) r"

text \<open>A roster document with a blank list item, and the roster it is parsed to.\<close>

definition roster_document :: string where
  "roster_document = ''## writer'' @ [CHR 0x0A] @ ''capabilities:'' @ [CHR 0x0A] @ ''  - Report''
                     @ [CHR 0x0A] @ ''  -  '' @ [CHR 0x0A] @ ''permissions:'' @ [CHR 0x0A]
                     @ ''  - read''"

definition document_roster :: roster where
  "document_roster =
     [(''writer'', \<lparr>agent_id = ''writer'', capabilities = [''Report''], permissions = [''read'']\<rparr>)]"

text \<open>
  The handler step relation of the Librarian. A step is one call of one of its two
  handlers on a message; the send that ends \<^verbatim>\<open>_handle_new_task\<close> only leads to further
  handler calls, which are steps of their own. Between steps the environment (workers,
  faults) may change the file system. The Librarian starts with no task and an empty queue.
\<close>

datatype event = New_task message | Task_complete message

definition handler_step :: "event \<Rightarrow> world \<Rightarrow> world" where
  "handler_step ev w =
     (case ev of
        New_task m \<Rightarrow> fst (handle_new_task m w)
      | Task_complete m \<Rightarrow> fst (handle_task_complete m w))"




definition new_task_message :: message where
  "new_task_message = [''type'' \<mapsto> ''NEW_TASK'', ''task_id'' \<mapsto> ''TASK-001'',
                       ''payload'' \<mapsto> ''write the report'']"

definition initial_world :: "filesystem \<Rightarrow> world" where
  "initial_world f = \<lparr>logs_path = ''logs'', roster = writer_roster, active_tasks = Map.empty,
                       completion_queue = [], fs = f, task_counter = 0\<rparr>"


definition delegated_world :: world where
  "delegated_world = handler_step (New_task new_task_message) (initial_world unwritable_aggregate)"

definition stuck_world :: world where
  "stuck_world = handler_step (Task_complete task_complete_message) delegated_world"

text \<open>
  The bus as the constructors build it (core/manager.py, agents/librarian.py,
  agents/probe.py): the Manager makes its own A2A object and the Librarian, which makes
  its A2A object and registers its two listeners. The handlers are the bound methods.
\<close>

datatype handler = Librarian_handle_new_task | Librarian_handle_task_complete
  | Probe_handle_delegated_task

definition librarian_init :: "handler bus \<Rightarrow> nat \<times> handler bus" where
  "librarian_init b =
     (case a2a_init ''librarian'' b of
        (self, b1) \<Rightarrow>
          (self, on self ''TASK_COMPLETE'' Librarian_handle_task_complete
                   (on self ''NEW_TASK'' Librarian_handle_new_task b1)))"

definition manager_init :: "handler bus \<Rightarrow> (nat \<times> nat) \<times> handler bus" where
  "manager_init b =
     (case a2a_init ''manager'' b of
        (manager, b1) \<Rightarrow>
          (case librarian_init b1 of
             (librarian, b2) \<Rightarrow> ((manager, librarian), b2)))"

definition manager_start :: "nat \<times> nat \<Rightarrow> handler bus \<Rightarrow> handler bus" where
  "manager_start refs b = (case refs of (manager, librarian) \<Rightarrow> start librarian (start manager b))"

definition manager_stop :: "nat \<times> nat \<Rightarrow> handler bus \<Rightarrow> handler bus" where
  "manager_stop refs b = (case refs of (manager, librarian) \<Rightarrow> stop manager (stop librarian b))"

definition constructed_bus :: "handler bus" where
  "constructed_bus = snd (manager_init empty_bus)"

definition started_bus :: "handler bus" where
  "started_bus = manager_start (fst (manager_init empty_bus)) constructed_bus"

definition stopped_bus :: "handler bus" where
  "stopped_bus = manager_stop (fst (manager_init empty_bus)) started_bus"

section \<open>The bus: validation\<close>

text \<open>
  C9. An argument that is not a dictionary makes \<^verbatim>\<open>send\<close> raise the ValueError of the
  dictionary check, which is not the one of the type check, for every bus and target; no
  handler is called (the call log stays as it was) and the state the handlers act on is
  unchanged.
\<close>

theorem send_not_dict_raises:
  "send b to_agent NotDict = Inl (ValueError ''Message must be a dictionary'')
   \<and> send_run exec b to_agent NotDict s = (s, Some (ValueError ''Message must be a dictionary''))
   \<and> send_run log_call b to_agent NotDict calls
       = (calls, Some (ValueError ''Message must be a dictionary''))
   \<and> ValueError ''Message must be a dictionary'' \<noteq> ValueError ''Message must contain 'type' field''"
  by (simp add: send_def send_run_def)

text \<open>
  C7. A dictionary without the key \<^verbatim>\<open>type\<close> makes \<^verbatim>\<open>send\<close> raise a ValueError to
  its caller, for every bus and every target agent; no handler is called and the state
  the handlers act on is unchanged.
\<close>

theorem send_without_type_raises:
  assumes "message ''type'' = None"
  shows "send b to_agent (Dict message) = Inl (ValueError ''Message must contain 'type' field'')
         \<and> send_run exec b to_agent (Dict message) s
             = (s, Some (ValueError ''Message must contain 'type' field''))
         \<and> send_run log_call b to_agent (Dict message) calls
             = (calls, Some (ValueError ''Message must contain 'type' field''))"
  using assms by (simp add: send_def send_run_def)

theorem send_without_type_raises_witness:
  "[''payload'' \<mapsto> ''write the report''] ''type'' = None
   \<and> send (empty_bus :: nat bus) ''librarian'' (Dict [''payload'' \<mapsto> ''write the report''])
        = Inl (ValueError ''Message must contain 'type' field'')
   \<and> send_run log_call (empty_bus :: nat bus) ''librarian''
          (Dict [''payload'' \<mapsto> ''write the report'']) []
        = ([], Some (ValueError ''Message must contain 'type' field''))"
  using send_without_type_raises [where message = "[''payload'' \<mapsto> ''write the report'']"
          and b = "empty_bus :: nat bus" and to_agent = "''librarian''" and exec = log_call
          and s = "[]" and calls = "[]"]
  by simp

section \<open>The consolidation pipeline\<close>

lemma cleanup_task_fs [simp]: "fs (cleanup_task tid w) = fs w"
  by (simp add: cleanup_task_def)

lemma cleanup_task_active [simp]: "active_tasks (cleanup_task tid w) tid = None"
  by (simp add: cleanup_task_def)

lemma cleanup_task_queue [simp]: "(a, tid) \<notin> set (completion_queue (cleanup_task tid w))"
  by (simp add: cleanup_task_def)



lemma read_file_Inr: "read_file p f = Inr c \<Longrightarrow> files f p = Some c"
  by (auto simp add: read_file_def split: option.splits if_splits)

lemma append_to_active_spec_frame:
  assumes "append_to_active_spec content agent tid w = Inr w1"
  shows "active_tasks w1 = active_tasks w \<and> completion_queue w1 = completion_queue w
         \<and> logs_path w1 = logs_path w
         \<and> undeletable (fs w1) = undeletable (fs w)
         \<and> (\<forall>p. p \<noteq> active_spec_path w \<longrightarrow> files (fs w1) p = files (fs w) p)"
  using assms
  by (auto simp add: append_to_active_spec_def mkdir_def write_file_def Let_def
           split: if_splits sum.splits)

lemma try_delete_frame:
  "active_tasks (try_delete p w) = active_tasks w
   \<and> completion_queue (try_delete p w) = completion_queue w
   \<and> files (fs (try_delete p w)) p
       = (if p \<in> undeletable (fs w) then files (fs w) p else None)"
  by (auto simp add: try_delete_def delete_file_def split: option.splits)

lemma verify_consolidation_Inr:
  "verify_consolidation content w1 = Inr ok \<Longrightarrow>
   ok = (case files (fs w1) (active_spec_path w1) of
           None \<Rightarrow> False
         | Some aggregate \<Rightarrow> sublist (strip content) aggregate)"
  by (auto simp add: verify_consolidation_def path_exists_def read_file_def
           split: option.splits if_splits)

text \<open>
  What the pipeline does after a successful append when the second read of the aggregate
  returns, for a temporary file that is not the aggregate itself: the verification result
  is whether the aggregate contains the trimmed content; the temporary file is kept when
  it does not and deleted (a failed deletion swallowed) when it does; the task is cleaned
  up in both cases.
\<close>

lemma consolidation_when_verification_returns:
  assumes rd: "read_file (spec_path w agent tid) (fs w) = Inr content"
      and ne: "strip content \<noteq> []"
      and ap: "append_to_active_spec content agent tid w = Inr w1"
      and vf: "verify_consolidation content w1 = Inr ok"
      and other: "spec_path w agent tid \<noteq> active_spec_path w"
      and run: "collect_and_consolidate_spec agent tid w = (w', e)"
  shows "e = None
         \<and> active_tasks w' tid = None
         \<and> (\<forall>a. (a, tid) \<notin> set (completion_queue w'))
         \<and> ok = (case files (fs w1) (active_spec_path w) of
                   None \<Rightarrow> False
                 | Some aggregate \<Rightarrow> sublist (strip content) aggregate)
         \<and> files (fs w') (spec_path w agent tid)
             = (if ok \<and> spec_path w agent tid \<notin> undeletable (fs w) then None else Some content)
         \<and> w' = cleanup_task tid (if ok then try_delete (spec_path w agent tid) w1 else w1)"
proof -
  have ex: "path_exists (spec_path w agent tid) (fs w)"
    using rd by (simp add: path_exists_def read_file_Inr)
  have res: "(w', e) = (cleanup_task tid (if ok then try_delete (spec_path w agent tid) w1 else w1), None)"
    using run ex rd ne ap vf by (simp add: collect_and_consolidate_spec_def)
  have fr: "logs_path w1 = logs_path w" "undeletable (fs w1) = undeletable (fs w)"
           "files (fs w1) (spec_path w agent tid) = Some content"
    using append_to_active_spec_frame [OF ap] other read_file_Inr [OF rd] by auto
  have okv: "ok = (case files (fs w1) (active_spec_path w) of
                     None \<Rightarrow> False | Some aggregate \<Rightarrow> sublist (strip content) aggregate)"
    using verify_consolidation_Inr [OF vf] fr(1) by (simp add: active_spec_path_def)
  have art: "files (fs w') (spec_path w agent tid)
             = (if ok \<and> spec_path w agent tid \<notin> undeletable (fs w) then None else Some content)"
    using res fr try_delete_frame [of "spec_path w agent tid" w1] by auto
  show ?thesis using res okv art by simp
qed

lemmas scenario_defs = scenario_world_def no_faults_def artifact_files_def writer_task_def
  writer_roster_def short_aggregate_def unwritable_aggregate_def task_complete_message_def
  first_entry_def with_aggregate_def

lemmas pipeline_defs = collect_and_consolidate_spec_def append_to_active_spec_def
  verify_consolidation_def try_delete_def cleanup_task_def read_file_def write_file_def
  delete_file_def mkdir_def path_exists_def spec_path_def active_spec_path_def path_join_def
  strip_def is_space_def

text \<open>
  C6 at a failing input. The temporary spec file exists and is not blank, the aggregate
  does not exist yet, can be written and cannot be read. The append succeeds and creates
  the aggregate with the content in it; the read of \<^verbatim>\<open>_verify_consolidation\<close>, which
  is outside every \<^verbatim>\<open>try\<close>, raises; the exception leaves the pipeline before
  \<^verbatim>\<open>_cleanup_task\<close>: the task stays in the active set and its entry in the queue.
\<close>

theorem verification_read_failure_skips_cleanup:
  "read_file (spec_path (scenario_world unreadable_aggregate) ''writer'' ''TASK-001'')
      unreadable_aggregate = Inr ''Report body''
   \<and> append_to_active_spec ''Report body'' ''writer'' ''TASK-001''
        (scenario_world unreadable_aggregate)
       = Inr (scenario_world (with_aggregate first_entry unreadable_aggregate))
   \<and> verify_consolidation ''Report body''
        (scenario_world (with_aggregate first_entry unreadable_aggregate))
       = Inl (OSError ''logs/active_spec.md'')
   \<and> collect_and_consolidate_spec ''writer'' ''TASK-001'' (scenario_world unreadable_aggregate)
       = (scenario_world (with_aggregate first_entry unreadable_aggregate),
          Some (OSError ''logs/active_spec.md''))
   \<and> active_tasks (scenario_world (with_aggregate first_entry unreadable_aggregate)) ''TASK-001''
       = Some writer_task
   \<and> completion_queue (scenario_world (with_aggregate first_entry unreadable_aggregate))
       = [(''writer'', ''TASK-001'')]"
  by (simp add: scenario_defs unreadable_aggregate_def pipeline_defs sublist_code)

text \<open>
  The two outcomes of a verification that returns, in the scenario: with a healthy file
  system the content is found, the temporary file is deleted and the task retired; with a
  write that stores nothing the content is not found, the temporary file stays and the
  task is retired all the same.
\<close>

lemma consolidation_scenarios:
  "verify_consolidation ''Report body''
        (scenario_world (with_aggregate first_entry (no_faults artifact_files))) = Inr True
   \<and> snd (collect_and_consolidate_spec ''writer'' ''TASK-001''
             (scenario_world (no_faults artifact_files))) = None
   \<and> files (fs (fst (collect_and_consolidate_spec ''writer'' ''TASK-001''
                        (scenario_world (no_faults artifact_files)))))
        ''logs/writer_TASK-001_spec.md'' = None
   \<and> active_tasks (fst (collect_and_consolidate_spec ''writer'' ''TASK-001''
                           (scenario_world (no_faults artifact_files)))) ''TASK-001'' = None
   \<and> verify_consolidation ''Report body'' (scenario_world (with_aggregate [] short_aggregate))
       = Inr False
   \<and> files (fs (fst (collect_and_consolidate_spec ''writer'' ''TASK-001''
                        (scenario_world short_aggregate))))
        ''logs/writer_TASK-001_spec.md'' = Some ''Report body''
   \<and> active_tasks (fst (collect_and_consolidate_spec ''writer'' ''TASK-001''
                           (scenario_world short_aggregate))) ''TASK-001'' = None"
  by (simp add: scenario_defs pipeline_defs sublist_code)

section \<open>Routing\<close>

lemma matches_list_ex: "matches caps p = list_ex (\<lambda>kw. sublist (lower (strip kw)) p) caps"
  by (induction caps) auto

lemma route_loop_first_match:
  "route_loop r p = first_match (\<lambda>kw. sublist (lower (strip kw)) p) r"
  by (induction r p rule: route_loop.induct) (auto simp add: first_match_def matches_list_ex)

text \<open>
  Routing on any roster: it lower-cases the payload, goes through the agents in the order
  of the roster, skips the Librarian, and returns the first agent one of whose capability
  keywords, trimmed of surrounding whitespace and lower-cased, occurs in the lower-cased
  payload; without such an agent it returns the Librarian.
\<close>

lemma route_task_trimmed_keywords:
  "route_task r description
     = first_match (\<lambda>kw. sublist (lower (strip kw)) (lower description)) r"
  by (simp add: route_task_def route_loop_first_match)

section \<open>The roster parser\<close>

text \<open>A stripped string that is not empty begins and ends with a character that is not a space, and stripping it again changes nothing.\<close>

lemma dropWhile_fixed: "xs = [] \<or> \<not> P (hd xs) \<Longrightarrow> dropWhile P xs = xs"
  by (cases xs) auto

lemma dropWhile_hd: "dropWhile P xs = [] \<or> \<not> P (hd (dropWhile P xs))"
  by (metis hd_dropWhile)

lemma strip_ends:
  assumes "strip s \<noteq> []"
  shows "\<not> is_space (hd (strip s)) \<and> \<not> is_space (last (strip s))"
proof -
  define u where "u = dropWhile is_space s"
  define v where "v = dropWhile is_space (rev u)"
  have t: "strip s = rev v" by (simp add: strip_def u_def v_def)
  with assms have vne: "v \<noteq> []" by simp
  have hv: "\<not> is_space (hd v)" using vne dropWhile_hd [of is_space "rev u"] unfolding v_def by blast
  obtain pre where pre: "rev u = pre @ v"
    by (metis v_def takeWhile_dropWhile_id)
  then have "u = rev v @ rev pre" by (metis rev_append rev_rev_ident)
  then have "hd u = hd (rev v)" using vne by simp
  moreover have "u \<noteq> []" using pre vne by auto
  then have "\<not> is_space (hd u)" using dropWhile_hd [of is_space s] unfolding u_def by blast
  ultimately have "\<not> is_space (hd (rev v))" by simp
  moreover have "last (rev v) = hd v" using vne by (simp add: last_rev)
  ultimately show ?thesis using t hv by simp
qed

lemma strip_fixed:
  assumes "s = [] \<or> (\<not> is_space (hd s) \<and> \<not> is_space (last s))"
  shows "strip s = s"
proof (cases "s = []")
  case True then show ?thesis by (simp add: strip_def)
next
  case False
  with assms have h: "\<not> is_space (hd s)" and l: "\<not> is_space (last s)" by auto
  have 1: "dropWhile is_space s = s" using h by (simp add: dropWhile_fixed)
  have "hd (rev s) = last s" using False by (simp add: hd_rev)
  then have 2: "dropWhile is_space (rev s) = rev s" using l by (simp add: dropWhile_fixed)
  show ?thesis by (simp add: strip_def 1 2)
qed

lemma strip_strip: "strip (strip s) = strip s"
  using strip_ends [of s] strip_fixed [of "strip s"] by blast

lemma lower_empty: "lower s = [] \<longleftrightarrow> s = []"
  by (simp add: lower_def)

lemma trimmed_keywords_dict_set:
  "trimmed_keywords r \<Longrightarrow> trimmed info \<Longrightarrow> trimmed_keywords (dict_set k info r)"
  by (induction r) (auto simp add: trimmed_keywords_def)

lemma trimmed_append_item:
  "trimmed info \<Longrightarrow> item \<noteq> [] \<Longrightarrow> strip item = item \<Longrightarrow> trimmed (append_item sec item info)"
  by (cases sec) (auto simp add: trimmed_def keywords_of_def append_item_def)

lemma trimmed_keywords_dict_modify:
  "trimmed_keywords r \<Longrightarrow> (\<And>info. trimmed info \<Longrightarrow> trimmed (g info))
   \<Longrightarrow> trimmed_keywords (dict_modify k g r)"
  by (induction r) (auto simp add: trimmed_keywords_def)

lemma parse_line_trimmed:
  assumes "trimmed_keywords (fst st)"
  shows "trimmed_keywords (fst (parse_line st line))"
proof -
  obtain agents cur sec where st: "st = (agents, cur, sec)" by (cases st) auto
  have fresh: "\<And>name. trimmed_keywords
                  (dict_set name \<lparr>agent_id = name, capabilities = [], permissions = []\<rparr> agents)"
    using assms st by (simp add: trimmed_keywords_dict_set trimmed_def keywords_of_def)
  have item: "\<And>x k s. strip x \<noteq> [] \<Longrightarrow>
                 trimmed_keywords (dict_modify k (append_item s (strip x)) agents)"
    using assms st by (simp add: trimmed_keywords_dict_modify trimmed_append_item strip_strip)
  show ?thesis
    using assms fresh item by (simp add: st parse_line_def Let_def)
qed

lemma foldl_parse_line_trimmed:
  "trimmed_keywords (fst st) \<Longrightarrow> trimmed_keywords (fst (foldl parse_line st lines))"
  by (induction lines arbitrary: st) (simp_all add: parse_line_trimmed)

lemma parse_roster_trimmed: "trimmed_keywords (parse_roster roster_content)"
  unfolding parse_roster_def
  by (rule foldl_parse_line_trimmed) (simp add: trimmed_keywords_def)

text \<open>
  C10. Every capability and permission keyword of a loaded roster is non-empty and has no
  surrounding whitespace (blank list items are dropped), so the keyword that routing looks
  for, trimmed and lower-cased, is never empty, and it does not occur in the empty
  payload: no keyword matches every payload.
\<close>

theorem loaded_roster_keywords_nonempty:
  assumes "load_roster roster_path f = Inr r"
      and "(agent, info) \<in> set r"
      and "kw \<in> set (capabilities info) \<or> kw \<in> set (permissions info)"
  shows "kw \<noteq> [] \<and> strip kw = kw \<and> lower (strip kw) \<noteq> [] \<and> \<not> sublist (lower (strip kw)) []"
proof -
  have "trimmed_keywords r"
    using assms(1) parse_roster_trimmed
    by (auto simp add: load_roster_def trimmed_keywords_def split: if_splits sum.splits)
  then have "trimmed info"
    using assms(2) by (auto simp add: trimmed_keywords_def list_all_iff)
  then have "kw \<noteq> [] \<and> strip kw = kw"
    using assms(3) by (auto simp add: trimmed_def keywords_of_def)
  then show ?thesis by (simp add: lower_empty)
qed

theorem loaded_roster_keywords_nonempty_witness:
  "load_roster ''docs/agent_roster.md'' (no_faults [''docs/agent_roster.md'' \<mapsto> roster_document])
     = Inr [(''writer'', \<lparr>agent_id = ''writer'', capabilities = [''Report''], permissions = [''read'']\<rparr>)]
   \<and> ''Report'' \<noteq> [] \<and> strip ''Report'' = ''Report'' \<and> lower (strip ''Report'') \<noteq> []
   \<and> \<not> sublist (lower (strip ''Report'')) []"
  using loaded_roster_keywords_nonempty
     [where roster_path = "''docs/agent_roster.md''"
        and f = "no_faults [''docs/agent_roster.md'' \<mapsto> roster_document]"
        and r = "[(''writer'', \<lparr>agent_id = ''writer'', capabilities = [''Report''], permissions = [''read'']\<rparr>)]"
        and agent = "''writer''"
        and info = "\<lparr>agent_id = ''writer'', capabilities = [''Report''], permissions = [''read'']\<rparr>"
        and kw = "''Report''"]
  by (simp add: load_roster_def path_exists_def read_file_def no_faults_def roster_document_def
        parse_roster_def parse_line_def Let_def truthy_def append_item_def strip_def is_space_def
        lower_def lower_char_def sublist_code)

section \<open>Routing on a loaded roster\<close>

text \<open>
  The roster the Librarian routes on is the one \<^verbatim>\<open>_load_roster\<close> returned. Its keywords
  are trimmed already, so trimming them again in \<^verbatim>\<open>_route_task\<close> changes nothing.
\<close>

lemma load_roster_trimmed:
  "load_roster roster_path f = Inr r \<Longrightarrow> trimmed_keywords r"
  using parse_roster_trimmed
  by (auto simp add: load_roster_def trimmed_keywords_def split: if_splits sum.splits)

lemma list_ex_trimmed:
  "trimmed info \<Longrightarrow>
     list_ex (\<lambda>kw. P (strip kw)) (capabilities info) = list_ex P (capabilities info)"
  by (auto simp add: list_ex_iff trimmed_def keywords_of_def)

lemma first_match_trimmed:
  "trimmed_keywords r \<Longrightarrow> first_match (\<lambda>kw. P (strip kw)) r = first_match P r"
  by (induction r) (auto simp add: first_match_def trimmed_keywords_def list_ex_trimmed)

text \<open>
  C5. For every payload and every roster the Librarian has loaded, routing lower-cases the
  payload, goes through the agents in the order of the roster, skips the Librarian, and
  returns the first agent one of whose capability keywords, lower-cased, occurs in the
  lower-cased payload; without such an agent, and so for the empty roster, it returns the
  Librarian. The result is a function of the roster and the payload.
\<close>

theorem route_task_first_match:
  assumes "load_roster roster_path f = Inr r"
  shows "route_task r description
           = first_match (\<lambda>kw. sublist (lower kw) (lower description)) r
         \<and> route_task [] description = ''librarian''"
proof -
  have "trimmed_keywords r"
    using assms by (rule load_roster_trimmed)
  then have "first_match (\<lambda>kw. sublist (lower (strip kw)) (lower description)) r
             = first_match (\<lambda>kw. sublist (lower kw) (lower description)) r"
    by (rule first_match_trimmed [where P = "\<lambda>kw. sublist (lower kw) (lower description)"])
  then have "route_task r description
             = first_match (\<lambda>kw. sublist (lower kw) (lower description)) r"
    by (simp add: route_task_trimmed_keywords)
  moreover have "route_task [] description = ''librarian''"
    by (simp add: route_task_def)
  ultimately show ?thesis by simp
qed

theorem route_task_first_match_witness:
  "load_roster ''docs/agent_roster.md'' (no_faults [''docs/agent_roster.md'' \<mapsto> roster_document])
     = Inr document_roster
   \<and> route_task document_roster ''Write the REPORT'' = ''writer''
   \<and> first_match (\<lambda>kw. sublist (lower kw) (lower ''Write the REPORT'')) document_roster
       = ''writer''
   \<and> route_task document_roster ''Fix the build'' = ''librarian''
   \<and> route_task [] ''Write the REPORT'' = ''librarian''"
  using route_task_first_match
     [where roster_path = "''docs/agent_roster.md''"
        and f = "no_faults [''docs/agent_roster.md'' \<mapsto> roster_document]"
        and r = document_roster
        and description = "''Write the REPORT''"]
  by (simp add: load_roster_def path_exists_def read_file_def no_faults_def roster_document_def
        document_roster_def parse_roster_def parse_line_def Let_def truthy_def append_item_def
        strip_def is_space_def lower_def lower_char_def sublist_code route_task_def
        first_match_def)

section \<open>The task life cycle\<close>



lemma py_not_truthy: "py_not v = (\<not> truthy v)"
  by (cases v) (simp_all add: py_not_def truthy_def)







lemmas world_defs = initial_world_def new_task_message_def task_complete_message_def
  unwritable_aggregate_def no_faults_def artifact_files_def writer_roster_def writer_task_def

lemmas string_defs = lower_def lower_char_def strip_def is_space_def sublist_code

lemma delegated_world_eq:
  "delegated_world = (initial_world unwritable_aggregate)\<lparr>active_tasks := [''TASK-001'' \<mapsto> writer_task]\<rparr>"
  by (simp add: delegated_world_def handler_step_def handle_new_task_def Let_def world_defs
        truthy_def modify_task_def route_task_def string_defs)

lemma stuck_world_eq:
  "stuck_world = (initial_world unwritable_aggregate)
      \<lparr>active_tasks := [''TASK-001'' \<mapsto> writer_task\<lparr>status := Completed\<rparr>],
       completion_queue := [(''writer'', ''TASK-001'')]\<rparr>"
  by (simp add: stuck_world_def delegated_world_eq handler_step_def handle_task_complete_def
        Let_def py_not_def modify_task_def world_defs pipeline_defs)






text \<open>
  C1 at a failing input. The task is DELEGATED, its temporary spec file exists and the
  aggregate cannot be written. TASK_COMPLETE marks the task COMPLETED, the append fails,
  the temporary file and the task stay (the first half of the claim). After the storage
  has recovered the same TASK_COMPLETE does nothing at all: the handler takes the task for
  a duplicate completion and returns before the pipeline, so nothing is appended and the
  task stays in the active set.
\<close>

theorem retry_after_append_failure_is_ignored:
  "handle_task_complete task_complete_message delegated_world = (stuck_world, None)
   \<and> files (fs stuck_world) ''logs/writer_TASK-001_spec.md'' = Some ''Report body''
   \<and> files (fs stuck_world) ''logs/active_spec.md'' = None
   \<and> map_option status (active_tasks stuck_world ''TASK-001'') = Some Completed
   \<and> handle_task_complete task_complete_message (stuck_world\<lparr>fs := no_faults artifact_files\<rparr>)
       = (stuck_world\<lparr>fs := no_faults artifact_files\<rparr>, None)"
  by (simp add: stuck_world_eq delegated_world_eq handle_task_complete_def
        Let_def py_not_def modify_task_def world_defs pipeline_defs)

section \<open>The bus: delivery\<close>

lemmas bus_defs = constructed_bus_def started_bus_def stopped_bus_def manager_init_def
  manager_start_def manager_stop_def librarian_init_def a2a_init_def on_def start_def stop_def
  empty_bus_def get_list_def global_key_def new_task_message_def

lemmas send_defs = send_def send_run_def instance_calls_def global_calls_def get_list_def
  global_key_def log_call_def

text \<open>
  C2 at a failing input. After the construction of the Manager and the Librarian, with
  nothing started, and again after start and stop, a NEW_TASK message sent to the
  Librarian calls its handler: the loop over the global table does not ask whether the
  target runs.
\<close>

theorem unstarted_librarian_still_receives:
  "instances constructed_bus ''librarian'' = Some 1
   \<and> running (objects constructed_bus ! 1) = False
   \<and> send constructed_bus ''librarian'' (Dict new_task_message) = Inr [Librarian_handle_new_task]
   \<and> send_run log_call constructed_bus ''librarian'' (Dict new_task_message) []
       = ([Librarian_handle_new_task], None)
   \<and> running (objects stopped_bus ! 1) = False
   \<and> send stopped_bus ''librarian'' (Dict new_task_message) = Inr [Librarian_handle_new_task]"
  by (simp add: bus_defs send_defs)

text \<open>
  C3 at a failing input. With the Librarian started, its one registration for NEW_TASK is
  called twice by one send: once from its own table and once more from the global table.
\<close>

theorem started_librarian_receives_twice:
  "instances started_bus ''librarian'' = Some 1
   \<and> running (objects started_bus ! 1) = True
   \<and> handlers (objects started_bus ! 1) ''NEW_TASK'' = Some [Librarian_handle_new_task]
   \<and> send started_bus ''librarian'' (Dict new_task_message)
       = Inr [Librarian_handle_new_task, Librarian_handle_new_task]
   \<and> send_run log_call started_bus ''librarian'' (Dict new_task_message) []
       = ([Librarian_handle_new_task, Librarian_handle_new_task], None)"
  by (simp add: bus_defs send_defs)

end
